theory Spec2Isabelle
  imports Complex_Main "HOL-Library.AList"
begin

section \<open>JavaScript values and errors\<close>

text \<open>
  The values that flow through the entity engine. Numbers are carried as reals with a
  separate \<open>NaN\<close>; no definition below computes with them. An object is the list of
  its own enumerable properties, in the order \<open>Object.keys\<close> lists them.
\<close>

datatype jsval =
    Undefined
  | Null
  | Bool bool
  | Num real
  | NaN
  | Str string
  | Arr "jsval list"
  | Obj "(string \<times> jsval) list"

text \<open>
  \<open>Error m\<close> is \<open>new Error(m)\<close>; the controller names its rejections by the message.
  \<open>TypeError\<close> and \<open>RangeError\<close> are the errors the runtime itself raises.
\<close>

datatype error = Error string | TypeError | RangeError

text \<open>
  What the modules import and do not define: the ECMAScript built-ins whose results
  depend on number parsing and printing, and \<open>genLabel\<close> of schema.services.js.
  \<open>toString\<close> is \<open>data.toString()\<close> for a value that is neither a string, null nor
  undefined. \<open>inherited\<close> answers the lookup \<open>sanitizers[datatype]\<close> for a name that is
  not one of the table's own keys: \<open>None\<close> when the prototype chain has no such member,
  otherwise the outcome of calling the member found there.
\<close>

record env =
  parseInt :: "jsval \<Rightarrow> jsval"
  parseFloat :: "jsval \<Rightarrow> jsval"
  JSON_stringify :: "jsval \<Rightarrow> jsval"
  toString :: "jsval \<Rightarrow> error + string"
  join :: "jsval list \<Rightarrow> string \<Rightarrow> string"
  inherited :: "string \<Rightarrow> (error + jsval) option"
  genLabel :: "string \<Rightarrow> jsval \<Rightarrow> string"

text \<open>\<open>!!data\<close>.\<close>

fun truthy :: "jsval \<Rightarrow> bool" where
  "truthy Undefined = False"
| "truthy Null = False"
| "truthy (Bool b) = b"
| "truthy (Num r) = (r \<noteq> 0)"
| "truthy NaN = False"
| "truthy (Str s) = (s \<noteq> [])"
| "truthy (Arr xs) = True"
| "truthy (Obj kvs) = True"

text \<open>\<open>isNaN\<close>, applied by the source to results of \<open>parseInt\<close> and \<open>parseFloat\<close> only.\<close>

fun isNaN :: "jsval \<Rightarrow> bool" where
  "isNaN NaN = True"
| "isNaN v = False"

text \<open>\<open>typeof data === 'object' && data !== null\<close>.\<close>

fun is_object :: "jsval \<Rightarrow> bool" where
  "is_object (Obj kvs) = True"
| "is_object (Arr xs) = True"
| "is_object v = False"

section \<open>data.utils.js\<close>

text \<open>
  \<open>s.replace(/(<([^>]+)>)/ig, '')\<close>: a match starts at a \<open><\<close> that is followed by at
  least one character other than \<open>>\<close> and then a \<open>>\<close>; the greedy class takes every
  character up to the next \<open>>\<close>. Matches are removed left to right.
\<close>

function strip_tags :: "string \<Rightarrow> string" where
  "strip_tags [] = []"
| "strip_tags (c # cs) =
     (if c = CHR ''<'' \<and> takeWhile (\<lambda>x. x \<noteq> CHR ''>'') cs \<noteq> []
          \<and> dropWhile (\<lambda>x. x \<noteq> CHR ''>'') cs \<noteq> []
      then strip_tags (tl (dropWhile (\<lambda>x. x \<noteq> CHR ''>'') cs))
      else c # strip_tags cs)"
  by pat_completeness auto
termination
proof (relation "measure length")
  fix c :: char and cs :: string
  have "length (tl (dropWhile (\<lambda>x. x \<noteq> CHR ''>'') cs)) \<le> length cs"
    using length_dropWhile_le [of "\<lambda>x. x \<noteq> CHR ''>''" cs] by simp
  then show "(tl (dropWhile (\<lambda>x. x \<noteq> CHR ''>'') cs), c # cs) \<in> measure length"
    by simp
qed simp_all

text \<open>\<open>data.toString()\<close>: a method call, so it throws on null and undefined.\<close>

definition js_toString :: "env \<Rightarrow> jsval \<Rightarrow> error + string" where
  "js_toString h data =
     (case data of
        Undefined \<Rightarrow> Inl TypeError
      | Null \<Rightarrow> Inl TypeError
      | Str s \<Rightarrow> Inr s
      | _ \<Rightarrow> toString h data)"

text \<open>The sanitizer shared by \<open>'varying character'\<close> and \<open>'text'\<close>.\<close>

definition sanitize_text :: "env \<Rightarrow> jsval \<Rightarrow> error + jsval" where
  "sanitize_text h data =
     (if data = Null \<or> data = Str [] then Inr (Str [])
      else (case js_toString h data of
              Inl e \<Rightarrow> Inl e
            | Inr s \<Rightarrow> Inr (Str (strip_tags s))))"

text \<open>
  \<open>sanitize(data, datatype)\<close>: the table \<open>sanitizers\<close> is looked up by \<open>datatype\<close>, and
  the \<open>'default'\<close> entry is used when the lookup finds nothing. A missing \<open>datatype\<close>
  is looked up as the name \<open>undefined\<close>.
\<close>

definition sanitize :: "env \<Rightarrow> jsval \<Rightarrow> string \<Rightarrow> error + jsval" where
  "sanitize h data datatype =
     (if datatype = ''boolean'' then Inr (Bool (truthy data))
      else if datatype = ''varying character'' then sanitize_text h data
      else if datatype = ''integer'' then
        Inr (if isNaN (parseInt h data) then Null else parseInt h data)
      else if datatype = ''double precision'' then
        Inr (if isNaN (parseFloat h data) then Null else parseFloat h data)
      else if datatype = ''float'' then
        Inr (if isNaN (parseFloat h data) then Null else parseFloat h data)
      else if datatype = ''json'' then Inr (JSON_stringify h data)
      else if datatype = ''USER-DEFINED'' then
        Inr (case data of
               Arr xs \<Rightarrow> Str (''('' @ join h xs '','' @ '')'')
             | _ \<Rightarrow> Null)
      else if datatype = ''text'' then sanitize_text h data
      else if datatype = ''default'' then Inr (if data = Str [] then Null else data)
      else (case inherited h datatype of
              Some r \<Rightarrow> r
            | None \<Rightarrow> Inr (if data = Str [] then Null else data)))"

text \<open>\<open>toSnake\<close> and \<open>humanize\<close>, on ASCII letters.\<close>

definition is_upper :: "char \<Rightarrow> bool" where
  "is_upper c = (65 \<le> (of_char c :: nat) \<and> (of_char c :: nat) \<le> 90)"

definition is_lower :: "char \<Rightarrow> bool" where
  "is_lower c = (97 \<le> (of_char c :: nat) \<and> (of_char c :: nat) \<le> 122)"

definition toLowerCase :: "char \<Rightarrow> char" where
  "toLowerCase c = (if is_upper c then char_of ((of_char c :: nat) + 32) else c)"

definition toUpperCase :: "char \<Rightarrow> char" where
  "toUpperCase c = (if is_lower c then char_of ((of_char c :: nat) - 32) else c)"

definition toSnake :: "string \<Rightarrow> string" where
  "toSnake str = concat (map (\<lambda>c. if is_upper c then [CHR ''_'', toLowerCase c] else [c]) str)"

fun split :: "char \<Rightarrow> string \<Rightarrow> string list" where
  "split d [] = [[]]"
| "split d (c # cs) =
     (if c = d then [] # split d cs
      else (case split d cs of
              [] \<Rightarrow> [[c]]
            | f # fs \<Rightarrow> (c # f) # fs))"

fun join_with :: "string \<Rightarrow> string list \<Rightarrow> string" where
  "join_with sep [] = []"
| "join_with sep [f] = f"
| "join_with sep (f # g # fs) = f @ sep @ join_with sep (g # fs)"

definition capitalize :: "string \<Rightarrow> string" where
  "capitalize frag = (case frag of [] \<Rightarrow> [] | c # cs \<Rightarrow> toUpperCase c # cs)"

definition humanize :: "string \<Rightarrow> string" where
  "humanize str = join_with '' '' (map capitalize (split CHR ''_'' (toSnake str)))"

section \<open>construct.services.js: the entity factory\<close>

subsection \<open>The store of attribute objects\<close>

text \<open>
  One entry of \<open>schema.attributes\<close>: the object \<open>{value, key, label, type}\<close>.
\<close>

record attribute =
  attr_value :: jsval
  attr_key :: string
  attr_label :: string
  attr_type :: string

text \<open>
  What \<open>this.attributes\<close> can refer to: the schema's attribute object, or the array
  that \<open>clear\<close> leaves behind. Both are objects with own enumerable properties, listed in
  the order of \<open>Object.keys\<close>; a property holds an attribute record (\<open>Some\<close>) or
  \<open>undefined\<close> (\<open>None\<close>). An array also owns \<open>length\<close>, which is not enumerable.
\<close>

record container =
  props :: "(string \<times> attribute option) list"
  is_array :: bool

text \<open>
  Objects are mutable and shared by reference, so they live in a store: \<open>cells\<close> maps a
  reference to the object it denotes and \<open>fresh\<close> is the next unused reference.
\<close>

type_synonym ref = nat

record store =
  cells :: "ref \<Rightarrow> container"
  fresh :: ref

definition alloc :: "store \<Rightarrow> container \<Rightarrow> ref \<times> store" where
  "alloc st c = (fresh st, st\<lparr>cells := (cells st)(fresh st := c), fresh := Suc (fresh st)\<rparr>)"

text \<open>The \<open>schema\<close> object (\<open>new Schema()\<close>), as far as the constructor reads it.\<close>

record schema =
  schema_idKey :: "string option"
  schema_attributes :: ref
  rootNodeTypes :: "string list"
  nodeDepth :: "(string \<times> nat) list"
  schema_fsRoot :: "(string \<times> string) list"

text \<open>The fields the constructor sets on \<open>this\<close>.\<close>

record model =
  name :: string
  key :: string
  idKey :: "string option"
  label :: string
  attributes :: ref
  isRoot :: bool
  depth :: "nat option"
  fsRoot :: string

subsection \<open>Property access\<close>

text \<open>The decimal name of an array index.\<close>

definition digit :: "nat \<Rightarrow> char" where
  "digit d = char_of (48 + d)"

function index_key :: "nat \<Rightarrow> string" where
  "index_key n = (if n < 10 then [digit n] else index_key (n div 10) @ [digit (n mod 10)])"
  by pat_completeness auto
termination
  by (relation "measure id") auto

definition Object_keys :: "container \<Rightarrow> string list" where
  "Object_keys c = map fst (props c)"

text \<open>
  \<open>c.hasOwnProperty(k)\<close>. The method is the built-in one: no property of an attribute
  object is itself named \<open>hasOwnProperty\<close>.
\<close>

definition hasOwnProperty :: "container \<Rightarrow> string \<Rightarrow> bool" where
  "hasOwnProperty c k = (k \<in> set (map fst (props c)) \<or> (is_array c \<and> k = ''length''))"

text \<open>The result of \<open>this.attributes[k]\<close> for an own property \<open>k\<close>.\<close>

datatype property = PAttr attribute | PUndefined | PNumber

definition getProp :: "container \<Rightarrow> string \<Rightarrow> property" where
  "getProp c k =
     (if is_array c \<and> k = ''length'' then PNumber
      else (case map_of (props c) k of
              Some (Some a) \<Rightarrow> PAttr a
            | Some None \<Rightarrow> PUndefined
            | None \<Rightarrow> PUndefined))"

text \<open>\<open>this.attributes[k].value\<close>: reading a property of \<open>undefined\<close> throws.\<close>

definition read_value :: "property \<Rightarrow> error + jsval" where
  "read_value p =
     (case p of
        PAttr a \<Rightarrow> Inr (attr_value a)
      | PUndefined \<Rightarrow> Inl TypeError
      | PNumber \<Rightarrow> Inr Undefined)"

text \<open>
  The name of an array index: a decimal numeral without a leading zero, below
  \<open>2^32 - 1\<close>. \<open>Object.keys\<close> lists such names first, in ascending order, and the
  other names after them in the order they were created.
\<close>

definition is_digit :: "char \<Rightarrow> bool" where
  "is_digit c = (48 \<le> (of_char c :: nat) \<and> (of_char c :: nat) \<le> 57)"

definition decimal :: "string \<Rightarrow> nat" where
  "decimal s = foldl (\<lambda>n c. 10 * n + ((of_char c :: nat) - 48)) 0 s"

definition array_index :: "string \<Rightarrow> nat option" where
  "array_index k =
     (if k \<noteq> [] \<and> list_all is_digit k \<and> (k = ''0'' \<or> hd k \<noteq> CHR ''0'')
         \<and> decimal k < 4294967295
      then Some (decimal k) else None)"

fun insert_index :: "nat \<Rightarrow> string \<Rightarrow> 'v \<Rightarrow> (string \<times> 'v) list \<Rightarrow> (string \<times> 'v) list" where
  "insert_index n k v [] = [(k, v)]"
| "insert_index n k v ((k', v') # ps) =
     (case array_index k' of
        Some m \<Rightarrow> if m < n then (k', v') # insert_index n k v ps else (k, v) # (k', v') # ps
      | None \<Rightarrow> (k, v) # (k', v') # ps)"

text \<open>
  \<open>object[k] = v\<close> on the list of own properties: an existing property keeps its place,
  a new one is created where \<open>Object.keys\<close> will list it.
\<close>

definition set_property :: "string \<Rightarrow> 'v \<Rightarrow> (string \<times> 'v) list \<Rightarrow> (string \<times> 'v) list" where
  "set_property k v ps =
     (if k \<in> set (map fst ps) then AList.update k v ps
      else (case array_index k of
              Some n \<Rightarrow> insert_index n k v ps
            | None \<Rightarrow> ps @ [(k, v)]))"

definition put_attribute :: "store \<Rightarrow> ref \<Rightarrow> string \<Rightarrow> attribute \<Rightarrow> store" where
  "put_attribute st r k a =
     st\<lparr>cells := (cells st)(r := (cells st r)\<lparr>props := set_property k (Some a) (props (cells st r))\<rparr>)\<rparr>"

text \<open>
  The statement \<open>this.attributes[k].value = sanitize(v, this.attributes[k].type)\<close> of
  \<open>setValue\<close> and \<open>setData\<close>. The module is in strict mode, where writing a property of
  a number throws.
\<close>

definition assign_value :: "env \<Rightarrow> store \<Rightarrow> ref \<Rightarrow> string \<Rightarrow> jsval \<Rightarrow> store \<times> (error + unit)" where
  "assign_value h st r k v =
     (case getProp (cells st r) k of
        PAttr a \<Rightarrow>
          (case sanitize h v (attr_type a) of
             Inl e \<Rightarrow> (st, Inl e)
           | Inr v' \<Rightarrow> (put_attribute st r k (a\<lparr>attr_value := v'\<rparr>), Inr ()))
      | PUndefined \<Rightarrow> (st, Inl TypeError)
      | PNumber \<Rightarrow>
          (case sanitize h v ''undefined'' of
             Inl e \<Rightarrow> (st, Inl e)
           | Inr v' \<Rightarrow> (st, Inl TypeError)))"

subsection \<open>setData\<close>

text \<open>\<open>rows[0]\<close>.\<close>

definition first_row :: "jsval \<Rightarrow> error + jsval" where
  "first_row rows =
     (case rows of
        Undefined \<Rightarrow> Inl TypeError
      | Null \<Rightarrow> Inl TypeError
      | Arr xs \<Rightarrow> Inr (case xs of [] \<Rightarrow> Undefined | x # _ \<Rightarrow> x)
      | Obj kvs \<Rightarrow> Inr (case map_of kvs ''0'' of None \<Rightarrow> Undefined | Some x \<Rightarrow> x)
      | Str s \<Rightarrow> Inr (case s of [] \<Rightarrow> Undefined | c # _ \<Rightarrow> Str [c])
      | _ \<Rightarrow> Inr Undefined)"

text \<open>
  \<open>data.hasOwnProperty('rows') ? data.rows[0] : data\<close>, for \<open>data\<close> an object. The method
  is looked up on \<open>data\<close> itself: a record that owns a property named \<open>hasOwnProperty\<close>
  shadows the built-in method with a value that cannot be called, and the call throws.
\<close>

definition inputData :: "jsval \<Rightarrow> error + jsval" where
  "inputData data =
     (case data of
        Obj kvs \<Rightarrow>
          (if ''hasOwnProperty'' \<in> set (map fst kvs) then Inl TypeError
           else (case map_of kvs ''rows'' of
                   Some rows \<Rightarrow> first_row rows
                 | None \<Rightarrow> Inr data))
      | _ \<Rightarrow> Inr data)"

text \<open>
  The own enumerable properties of \<open>inputData\<close>, as \<open>Object.keys\<close> enumerates them with
  the values \<open>inputData[key]\<close>; \<open>Object.keys\<close> throws on null and undefined.
\<close>

definition entries :: "jsval \<Rightarrow> error + (string \<times> jsval) list" where
  "entries v =
     (case v of
        Undefined \<Rightarrow> Inl TypeError
      | Null \<Rightarrow> Inl TypeError
      | Obj kvs \<Rightarrow> Inr kvs
      | Arr xs \<Rightarrow> Inr (zip (map index_key [0..<length xs]) xs)
      | Str s \<Rightarrow> Inr (zip (map index_key [0..<length s]) (map (\<lambda>c. Str [c]) s))
      | _ \<Rightarrow> Inr [])"

text \<open>The second pass of \<open>setData\<close>; it stops at the first assignment that throws.\<close>

fun assign_all :: "env \<Rightarrow> ref \<Rightarrow> (string \<times> jsval) list \<Rightarrow> store \<Rightarrow> store \<times> (error + unit)" where
  "assign_all h r [] st = (st, Inr ())"
| "assign_all h r ((k, v) # kvs) st =
     (case assign_value h st r k v of
        (st', Inl e) \<Rightarrow> (st', Inl e)
      | (st', Inr u) \<Rightarrow> assign_all h r kvs st')"

text \<open>
  \<open>setData(data)\<close> returns the keys it warned about (one \<open>console.warn\<close> each), the store
  as the call leaves it, and whether it returned or threw.
\<close>

definition setData :: "env \<Rightarrow> model \<Rightarrow> jsval \<Rightarrow> store \<Rightarrow> string list \<times> store \<times> (error + unit)" where
  "setData h this data st =
     (if is_object data then
        (case inputData data of
           Inl e \<Rightarrow> ([], st, Inl e)
         | Inr input \<Rightarrow>
             (case entries input of
                Inl e \<Rightarrow> ([], st, Inl e)
              | Inr kvs \<Rightarrow>
                  (let c = cells st (attributes this);
                       warned = filter (\<lambda>k. \<not> hasOwnProperty c k) (map fst kvs);
                       known = filter (\<lambda>(k, v). hasOwnProperty c k) kvs
                   in (warned, assign_all h (attributes this) known st))))
      else ([], st, Inr ()))"

subsection \<open>The constructor returned by create\<close>

text \<open>
  \<open>create(modelType)\<close> builds one \<open>schema\<close> and returns a constructor that closes over it;
  every instance takes \<open>schema.attributes\<close> itself (the reference) as \<open>this.attributes\<close>.
\<close>

definition Model :: "env \<Rightarrow> schema \<Rightarrow> string \<Rightarrow> jsval \<Rightarrow> store \<Rightarrow> string list \<times> store \<times> (error + model)" where
  "Model h sch modelType attributeValues st =
     (let this = \<lparr> name = modelType,
                   key = modelType @ ''_id'',
                   idKey = schema_idKey sch,
                   label = genLabel h modelType attributeValues,
                   attributes = schema_attributes sch,
                   isRoot = (modelType \<in> set (rootNodeTypes sch)),
                   depth = (case map_of (nodeDepth sch) modelType of
                              Some d \<Rightarrow> Some d
                            | None \<Rightarrow> map_of (nodeDepth sch) ''default''),
                   fsRoot = (case map_of (schema_fsRoot sch) modelType of
                               Some p \<Rightarrow> p
                             | None \<Rightarrow> ''Unknown'') \<rparr>
      in (case setData h this attributeValues st of
            (w, st', Inl e) \<Rightarrow> (w, st', Inl e)
          | (w, st', Inr u) \<Rightarrow> (w, st', Inr this)))"

subsection \<open>Methods\<close>

definition hasAttribute :: "store \<Rightarrow> schema \<Rightarrow> string \<Rightarrow> bool" where
  "hasAttribute st sch attr = hasOwnProperty (cells st (schema_attributes sch)) attr"

text \<open>
  \<open>this.attributes[name] = {...}\<close>. Assigning \<open>length\<close> of an array anything but a length
  throws; the name \<open>__proto__\<close> is an accessor and creates no own property.
\<close>

definition addAttribute :: "store \<Rightarrow> model \<Rightarrow> string \<Rightarrow> string \<Rightarrow> jsval \<Rightarrow> store \<times> (error + unit)" where
  "addAttribute st this nm ty v =
     (if is_array (cells st (attributes this)) \<and> nm = ''length'' then (st, Inl RangeError)
      else if nm = ''__proto__'' then (st, Inr ())
      else (put_attribute st (attributes this) nm
              \<lparr> attr_value = v, attr_key = nm, attr_label = humanize nm, attr_type = ty \<rparr>,
            Inr ()))"

definition getValue :: "store \<Rightarrow> model \<Rightarrow> string \<Rightarrow> error + jsval" where
  "getValue st this field =
     (if field \<noteq> [] \<and> hasOwnProperty (cells st (attributes this)) field
      then read_value (getProp (cells st (attributes this)) field)
      else Inr Null)"

definition setValue :: "env \<Rightarrow> store \<Rightarrow> model \<Rightarrow> string \<Rightarrow> jsval \<Rightarrow> store \<times> (error + unit)" where
  "setValue h st this k v =
     (if hasOwnProperty (cells st (attributes this)) k
      then assign_value h st (attributes this) k v
      else (st, Inr ()))"

text \<open>
  \<open>getData(filter)\<close>: the reduce over the keys that \<open>filter\<close> does not list; it throws at
  the first key whose property is \<open>undefined\<close>.
\<close>

fun collect :: "container \<Rightarrow> string list \<Rightarrow> error + (string \<times> jsval) list" where
  "collect c [] = Inr []"
| "collect c (k # ks) =
     (case read_value (getProp c k) of
        Inl e \<Rightarrow> Inl e
      | Inr v \<Rightarrow>
          (case collect c ks of
             Inl e \<Rightarrow> Inl e
           | Inr acc \<Rightarrow> Inr ((k, v) # acc)))"

definition getData :: "store \<Rightarrow> model \<Rightarrow> string list \<Rightarrow> error + (string \<times> jsval) list" where
  "getData st this excluded =
     collect (cells st (attributes this))
       (filter (\<lambda>k. k \<notin> set excluded) (Object_keys (cells st (attributes this))))"

text \<open>
  \<open>clear()\<close>: the callback of \<open>map\<close> sets each value to null and returns nothing, so the
  array that \<open>map\<close> builds holds \<open>undefined\<close> at every index; that array is then assigned
  to \<open>this.attributes\<close>.
\<close>

fun null_all :: "ref \<Rightarrow> string list \<Rightarrow> store \<Rightarrow> store \<times> (error + unit)" where
  "null_all r [] st = (st, Inr ())"
| "null_all r (k # ks) st =
     (case getProp (cells st r) k of
        PAttr a \<Rightarrow> null_all r ks (put_attribute st r k (a\<lparr>attr_value := Null\<rparr>))
      | PUndefined \<Rightarrow> (st, Inl TypeError)
      | PNumber \<Rightarrow> (st, Inl TypeError))"

definition undefined_array :: "nat \<Rightarrow> container" where
  "undefined_array n = \<lparr> props = map (\<lambda>i. (index_key i, None)) [0..<n], is_array = True \<rparr>"

definition clear :: "store \<Rightarrow> model \<Rightarrow> store \<times> model \<times> (error + unit)" where
  "clear st this =
     (let ks = Object_keys (cells st (attributes this))
      in (case null_all (attributes this) ks st of
            (st', Inl e) \<Rightarrow> (st', this, Inl e)
          | (st', Inr u) \<Rightarrow>
              (case alloc st' (undefined_array (length ks)) of
                 (r, st'') \<Rightarrow> (st'', this\<lparr>attributes := r\<rparr>, Inr ()))))"

text \<open>
  The invariant of an entity instance: every attribute of the schema exists in the
  instance, that is, \<open>this.attributes\<close> holds an attribute record under that key.
\<close>

definition holds_attribute :: "container \<Rightarrow> string \<Rightarrow> bool" where
  "holds_attribute c k = (case getProp c k of PAttr a \<Rightarrow> True | _ \<Rightarrow> False)"

definition instance_invariant :: "store \<Rightarrow> schema \<Rightarrow> model \<Rightarrow> bool" where
  "instance_invariant st sch this =
     list_all (holds_attribute (cells st (attributes this)))
       (Object_keys (cells st (schema_attributes sch)))"

text \<open>
  A schema's attribute object as the constructor expects it: a plain object with an
  attribute record under every key.
\<close>

definition attribute_object :: "container \<Rightarrow> bool" where
  "attribute_object c = (\<not> is_array c \<and> None \<notin> set (map snd (props c)))"

section \<open>model.controller.js\<close>

subsection \<open>Data the controller reads\<close>

text \<open>
  An entry of \<open>itemData.dependents\<close>: its \<open>node\<close>, and the two fields \<open>show\<close> attaches.
\<close>

record dependent =
  dep_node :: jsval
  dep_dependents :: jsval
  dep_attached :: jsval

text \<open>
  What \<open>nserve.get\<close> resolves to, restricted to the fields the controller reads. \<open>type\<close>
  and \<open>status\<close> are \<open>None\<close> when the property is undefined.
\<close>

record itemData =
  item_type :: "string option"
  item_status :: "string option"
  item_node :: jsval
  item_metadata :: jsval
  hasDependents :: bool
  dependents :: "dependent list"
  attached :: jsval

record request =
  params :: "(string \<times> jsval) list"

text \<open>
  The controller of one node type; \<open>model\<close> is the instance that \<open>init\<close> built with
  \<open>new Model()\<close>.
\<close>

record controller =
  nodeType :: string
  model :: model

subsection \<open>Events\<close>

text \<open>
  A handler is observed through the calls it makes, in order: the statements it issues
  on the pooled client (\<open>ClientQuery\<close>), its calls to the other services, and what it hands
  back (\<open>Next\<close> for \<open>next(err)\<close>, \<open>Respond\<close> for \<open>res.status(200).json\<close> with the view
  and the data given to \<open>prepare\<close>). \<open>Throw\<close> is an error that leaves the handler.
\<close>

datatype event =
    PoolConnect
  | ClientQuery string
  | NserveGet jsval string
  | NserveSelect jsval
  | NserveGetPath jsval
  | NserveSelectByOwner jsval
  | GetAttachedByNode jsval
  | GetComparisonsMetadata jsval
  | IsRelatable jsval jsval
  | DeleteComparisons jsval
  | ImporterReceive
  | NewModel jsval
  | MserveMove jsval
  | MserveRemove
  | ConsoleError error
  | Next error
  | Respond string itemData
  | Throw error
  | ClientRelease

text \<open>The events that change stored data.\<close>

fun mutating :: "event \<Rightarrow> bool" where
  "mutating (DeleteComparisons n) = True"
| "mutating (MserveMove ownerData) = True"
| "mutating MserveRemove = True"
| "mutating e = False"

fun is_query :: "event \<Rightarrow> bool" where
  "is_query (ClientQuery q) = True"
| "is_query e = False"

text \<open>
  The services the controller imports and does not define (nodes, metadata, comparisons,
  schema, model and import services, and the pooled client). Each call either throws
  (\<open>Inl\<close>) or returns. \<open>new_Model\<close> is the constructor that \<open>cserve.create(nodeType)\<close>
  returned, with the store it works on left out; \<open>item_owner_id\<close> is the \<open>owner_id\<close> that
  \<open>remove\<close> reads from \<open>item.node\<close>, null when there is none.
\<close>

record 'item services =
  nserve_get :: "jsval \<Rightarrow> string \<Rightarrow> error + itemData option"
  nserve_select :: "jsval \<Rightarrow> error + jsval"
  nserve_getPath :: "jsval \<Rightarrow> error + jsval"
  nserve_selectByOwner :: "jsval \<Rightarrow> error + jsval"
  getAttachedByNode :: "jsval \<Rightarrow> error + jsval"
  getComparisonsMetadata :: "jsval \<Rightarrow> error + jsval"
  isRelatable :: "jsval \<Rightarrow> jsval \<Rightarrow> error + jsval"
  deleteComparisons :: "jsval \<Rightarrow> error + unit"
  new_Model :: "jsval \<Rightarrow> error + 'item"
  item_owner_id :: "'item \<Rightarrow> jsval"
  mserve_move :: "'item \<Rightarrow> jsval \<Rightarrow> error + jsval"
  mserve_remove :: "'item \<Rightarrow> error + unit"
  client_query :: "string \<Rightarrow> error + unit"
  importer_receive :: "error + unit"

subsection \<open>Sequencing\<close>

text \<open>
  A piece of a handler body: the events it made, and either the error it threw or its
  value. \<open>andThen\<close> runs the continuation only when the first part did not throw.
\<close>

type_synonym 'a task = "event list \<times> (error + 'a)"

definition call :: "event \<Rightarrow> error + 'a \<Rightarrow> 'a task" where
  "call ev outcome = ([ev], outcome)"

definition ret :: "'a \<Rightarrow> 'a task" where
  "ret x = ([], Inr x)"

definition andThen :: "'a task \<Rightarrow> ('a \<Rightarrow> 'b task) \<Rightarrow> 'b task" where
  "andThen m f =
     (case m of
        (t, Inl e) \<Rightarrow> (t, Inl e)
      | (t, Inr x) \<Rightarrow> (case f x of (t', r) \<Rightarrow> (t @ t', r)))"

text \<open>\<open>return next(new Error(m))\<close> and the final \<open>res.status(200).json(...)\<close>.\<close>

definition next_error :: "string \<Rightarrow> unit task" where
  "next_error m = ([Next (Error m)], Inr ())"

definition respond :: "string \<Rightarrow> itemData \<Rightarrow> unit task" where
  "respond view data = ([Respond view data], Inr ())"

text \<open>
  The frame shared by \<open>show\<close>, \<open>edit\<close>, \<open>move\<close> and \<open>remove\<close>: the client is taken from
  the pool, the body runs in \<open>try\<close>, \<open>catch\<close> logs the error and passes it to \<open>next\<close>,
  and \<open>finally\<close> releases the client. The checkout, which stands before \<open>try\<close>, and
  the release are taken to return.
\<close>

definition handler :: "unit task \<Rightarrow> event list" where
  "handler body =
     (case body of
        (t, Inl e) \<Rightarrow> [PoolConnect] @ t @ [ConsoleError e, Next e, ClientRelease]
      | (t, Inr u) \<Rightarrow> [PoolConnect] @ t @ [ClientRelease])"

subsection \<open>Reading the request and the item\<close>

text \<open>\<open>getId\<close>: \<open>parseInt\<close> of the route parameter named \<open>model.key\<close>, or null.\<close>

definition getId :: "env \<Rightarrow> controller \<Rightarrow> request \<Rightarrow> jsval" where
  "getId h ctl req =
     (case map_of (params req) (key (model ctl)) of
        Some v \<Rightarrow> parseInt h v
      | None \<Rightarrow> Null)"

text \<open>\<open>const { owner_id = null } = req.params\<close>.\<close>

definition param_owner_id :: "request \<Rightarrow> jsval" where
  "param_owner_id req =
     (case map_of (params req) ''owner_id'' of
        None \<Rightarrow> Null
      | Some Undefined \<Rightarrow> Null
      | Some v \<Rightarrow> v)"

text \<open>The destructuring defaults \<open>type = ''\<close>, \<open>status = ''\<close> and \<open>metadata = {}\<close>.\<close>

definition type_of :: "itemData \<Rightarrow> string" where
  "type_of item = (case item_type item of None \<Rightarrow> [] | Some t \<Rightarrow> t)"

definition status_of :: "itemData \<Rightarrow> string" where
  "status_of item = (case item_status item of None \<Rightarrow> [] | Some s \<Rightarrow> s)"

definition metadata_of :: "itemData \<Rightarrow> jsval" where
  "metadata_of item = (if item_metadata item = Undefined then Obj [] else item_metadata item)"

text \<open>\<open>Array.isArray(comparisons) && comparisons.length > 0\<close>.\<close>

definition has_comparisons :: "jsval \<Rightarrow> bool" where
  "has_comparisons comparisons = (case comparisons of Arr cs \<Rightarrow> cs \<noteq> [] | _ \<Rightarrow> False)"

text \<open>\<open>node.id\<close>, with \<open>node\<close> defaulting to \<open>{}\<close> when undefined.\<close>

definition node_id :: "jsval \<Rightarrow> error + jsval" where
  "node_id node =
     (case node of
        Undefined \<Rightarrow> Inr Undefined
      | Null \<Rightarrow> Inl TypeError
      | Obj kvs \<Rightarrow> Inr (case map_of kvs ''id'' of None \<Rightarrow> Undefined | Some v \<Rightarrow> v)
      | _ \<Rightarrow> Inr Undefined)"

subsection \<open>show and edit\<close>

text \<open>
  The second-level dependents of \<open>show\<close>: \<open>Promise.all\<close> over one asynchronous callback
  per dependent. \<open>map\<close> starts every callback, and each runs up to its first \<open>await\<close>:
  it reads \<open>node.id\<close> and calls \<open>selectByOwner\<close>. A callback is resumed when its call
  has settled, and then calls \<open>getAttachedByNode\<close>. The calls go to the one client and
  are taken to settle in the order they were made. \<open>Promise.all\<close> rejects with the first
  rejection, and the handler goes on to \<open>catch\<close> at once; what the other callbacks do
  after that is not part of the handler's trace.
\<close>

definition node_of :: "dependent \<Rightarrow> jsval" where
  "node_of d = (if dep_node d = Undefined then Obj [] else dep_node d)"

text \<open>The calls made while \<open>map\<close> runs; a callback whose \<open>node.id\<close> throws makes none.\<close>

fun started :: "dependent list \<Rightarrow> event list" where
  "started [] = []"
| "started (d # ds) =
     (case node_id (dep_node d) of
        Inl e \<Rightarrow> started ds
      | Inr i \<Rightarrow> NserveSelectByOwner i # started ds)"

text \<open>The first callback that has thrown before any call settled.\<close>

fun rejected_at_once :: "dependent list \<Rightarrow> error option" where
  "rejected_at_once [] = None"
| "rejected_at_once (d # ds) =
     (case node_id (dep_node d) of
        Inl e \<Rightarrow> Some e
      | Inr i \<Rightarrow> rejected_at_once ds)"

text \<open>The \<open>selectByOwner\<close> calls settle in turn; each callback that is resumed makes its second call.\<close>

fun resumed :: "'item services \<Rightarrow> dependent list \<Rightarrow> dependent list task" where
  "resumed svc [] = ret []"
| "resumed svc (d # ds) =
     (case node_id (dep_node d) of
        Inl e \<Rightarrow> ([], Inl e)
      | Inr i \<Rightarrow>
          (case nserve_selectByOwner svc i of
             Inl e \<Rightarrow> ([], Inl e)
           | Inr below \<Rightarrow>
               andThen (call (GetAttachedByNode (node_of d)) (Inr ())) (\<lambda>u.
               andThen (resumed svc ds) (\<lambda>rest.
               ret (d\<lparr>dep_dependents := below\<rparr> # rest)))))"

text \<open>The \<open>getAttachedByNode\<close> calls settle in turn.\<close>

fun settled :: "'item services \<Rightarrow> dependent list \<Rightarrow> error + dependent list" where
  "settled svc [] = Inr []"
| "settled svc (d # ds) =
     (case getAttachedByNode svc (node_of d) of
        Inl e \<Rightarrow> Inl e
      | Inr att \<Rightarrow>
          (case settled svc ds of
             Inl e \<Rightarrow> Inl e
           | Inr rest \<Rightarrow> Inr (d\<lparr>dep_attached := att\<rparr> # rest)))"

definition expand :: "'item services \<Rightarrow> dependent list \<Rightarrow> dependent list task" where
  "expand svc ds =
     (case rejected_at_once ds of
        Some e \<Rightarrow> (started ds, Inl e)
      | None \<Rightarrow>
          andThen (started ds, Inr ()) (\<lambda>u.
          andThen (resumed svc ds) (\<lambda>ds'.
          ([], settled svc ds'))))"

definition show' :: "env \<Rightarrow> 'item services \<Rightarrow> controller \<Rightarrow> request \<Rightarrow> event list" where
  "show' h svc ctl req =
     handler
       (andThen (call (NserveGet (getId h ctl req) (nodeType ctl))
                   (nserve_get svc (getId h ctl req) (nodeType ctl))) (\<lambda>found.
        case found of
          None \<Rightarrow> next_error ''notFound''
        | Some item \<Rightarrow>
            if nodeType ctl \<noteq> type_of item then next_error ''notFound''
            else
              andThen (call (NserveGetPath (item_node item)) (nserve_getPath svc (item_node item))) (\<lambda>path.
              andThen (if (case depth (model ctl) of None \<Rightarrow> False | Some d \<Rightarrow> 1 < d)
                       then expand svc (dependents item)
                       else ret (dependents item)) (\<lambda>deps.
              andThen (call (GetAttachedByNode (item_node item))
                         (getAttachedByNode svc (item_node item))) (\<lambda>att.
              respond ''show'' (item\<lparr>dependents := deps, attached := att\<rparr>))))))"

definition edit :: "env \<Rightarrow> 'item services \<Rightarrow> controller \<Rightarrow> request \<Rightarrow> event list" where
  "edit h svc ctl req =
     handler
       (andThen (call (NserveGet (getId h ctl req) (nodeType ctl))
                   (nserve_get svc (getId h ctl req) (nodeType ctl))) (\<lambda>found.
        case found of
          None \<Rightarrow> next_error ''notFound''
        | Some item \<Rightarrow>
            if nodeType ctl \<noteq> type_of item then next_error ''notFound''
            else
              andThen (call (NserveSelect (getId h ctl req))
                         (nserve_select svc (getId h ctl req))) (\<lambda>owner.
              andThen (call (NserveGetPath owner) (nserve_getPath svc owner)) (\<lambda>path.
              respond ''edit'' item))))"

subsection \<open>move\<close>

definition move :: "env \<Rightarrow> 'item services \<Rightarrow> controller \<Rightarrow> request \<Rightarrow> event list" where
  "move h svc ctl req =
     handler
       (andThen (call (NserveGet (getId h ctl req) (nodeType ctl))
                   (nserve_get svc (getId h ctl req) (nodeType ctl))) (\<lambda>found.
        andThen (call (NserveSelect (param_owner_id req))
                   (nserve_select svc (param_owner_id req))) (\<lambda>ownerData.
        case found of
          None \<Rightarrow> next_error ''notFound''
        | Some item \<Rightarrow>
            if \<not> truthy ownerData \<or> nodeType ctl \<noteq> type_of item then next_error ''notFound''
            else
              andThen (call (GetComparisonsMetadata (item_node item))
                         (getComparisonsMetadata svc (item_node item))) (\<lambda>comparisons.
              andThen (call (IsRelatable (getId h ctl req) (param_owner_id req))
                         (isRelatable svc (getId h ctl req) (param_owner_id req))) (\<lambda>isMoveable.
              if has_comparisons comparisons then next_error ''restrictedByComparisons''
              else if \<not> truthy isMoveable then next_error ''invalidMove''
              else if status_of item \<noteq> ''unsorted'' \<and> status_of item \<noteq> ''sorted''
                        \<and> status_of item \<noteq> ''missing''
                then next_error ''invalidMove''
              else
                andThen (call (NewModel (metadata_of item)) (new_Model svc (metadata_of item))) (\<lambda>it.
                andThen (call (MserveMove ownerData) (mserve_move svc it ownerData)) (\<lambda>result.
                if \<not> truthy result then next_error ''invalidRequest''
                else respond ''show'' item)))))))"

subsection \<open>remove\<close>

definition remove :: "env \<Rightarrow> 'item services \<Rightarrow> controller \<Rightarrow> request \<Rightarrow> event list" where
  "remove h svc ctl req =
     handler
       (andThen (call (NserveGet (getId h ctl req) (nodeType ctl))
                   (nserve_get svc (getId h ctl req) (nodeType ctl))) (\<lambda>found.
        case found of
          None \<Rightarrow> next_error ''notFound''
        | Some item \<Rightarrow>
            if nodeType ctl \<noteq> type_of item then next_error ''notFound''
            else if hasDependents item then next_error ''23503''
            else
              andThen (call (GetComparisonsMetadata (item_node item))
                         (getComparisonsMetadata svc (item_node item))) (\<lambda>comparisons.
              andThen (if has_comparisons comparisons
                       then call (DeleteComparisons (item_node item))
                              (deleteComparisons svc (item_node item))
                       else ret ()) (\<lambda>u.
              andThen (call (NewModel (item_metadata item)) (new_Model svc (item_metadata item))) (\<lambda>it.
              andThen (call (NserveSelect (item_owner_id svc it))
                         (nserve_select svc (item_owner_id svc it))) (\<lambda>owner.
              andThen (call (NserveGetPath owner) (nserve_getPath svc owner)) (\<lambda>path.
              andThen (call MserveRemove (mserve_remove svc it)) (\<lambda>u'.
              respond ''remove'' item))))))))"

subsection \<open>create\<close>

text \<open>
  The one handler that issues transaction statements itself. \<open>importer.receive\<close> is handed
  a callback and not awaited; what the callback does later is not part of the trace. Its
  \<open>catch\<close> issues \<open>ROLLBACK\<close> first, and when that statement throws in turn, the new error
  leaves the handler after \<open>finally\<close>.
\<close>

definition create :: "env \<Rightarrow> 'item services \<Rightarrow> controller \<Rightarrow> request \<Rightarrow> event list" where
  "create h svc ctl req =
     (case andThen (call (ClientQuery ''BEGIN'') (client_query svc ''BEGIN'')) (\<lambda>u.
           andThen (call (NserveSelect (param_owner_id req))
                      (nserve_select svc (param_owner_id req))) (\<lambda>owner.
           if \<not> truthy owner \<and> \<not> isRoot (model ctl) then next_error ''invalidRequest''
           else
             andThen (call ImporterReceive (importer_receive svc)) (\<lambda>u'.
             call (ClientQuery ''COMMIT'') (client_query svc ''COMMIT'')))) of
        (t, Inr u) \<Rightarrow> [PoolConnect] @ t @ [ClientRelease]
      | (t, Inl e) \<Rightarrow>
          (case client_query svc ''ROLLBACK'' of
             Inr u \<Rightarrow>
               [PoolConnect] @ t @ [ClientQuery ''ROLLBACK'', ConsoleError e, Next e, ClientRelease]
           | Inl e' \<Rightarrow>
               [PoolConnect] @ t @ [ClientQuery ''ROLLBACK'', ClientRelease, Throw e']))"

section \<open>Example data\<close>

text \<open>
  Concrete inputs for the closed statements below. \<open>example_env\<close> reads a string of
  decimal digits as \<open>parseInt\<close> does, which is all the examples ask of it (the route
  ids); its other fields are constants, and the examples use inputs on which the source
  calls none of them.
\<close>

definition example_env :: env where
  "example_env =
     \<lparr> parseInt = (\<lambda>v. case v of
                          Str s \<Rightarrow> if s \<noteq> [] \<and> list_all is_digit s
                                   then Num (real (decimal s)) else NaN
                        | _ \<Rightarrow> NaN),
       parseFloat = (\<lambda>v. NaN),
       JSON_stringify = (\<lambda>v. Undefined),
       toString = (\<lambda>v. Inr ''[object Object]''),
       join = (\<lambda>xs sep. []),
       inherited = (\<lambda>n. None),
       genLabel = (\<lambda>t v. t) \<rparr>"

text \<open>A schema with two text attributes, its store, and the instance \<open>new Model()\<close> yields.\<close>

definition stations_attributes :: container where
  "stations_attributes =
     \<lparr> props =
         [(''name'', Some \<lparr> attr_value = Null, attr_key = ''name'', attr_label = ''Name'',
                            attr_type = ''varying character'' \<rparr>),
          (''narrative'', Some \<lparr> attr_value = Null, attr_key = ''narrative'',
                                 attr_label = ''Narrative'', attr_type = ''text'' \<rparr>)],
       is_array = False \<rparr>"

definition stations_store :: store where
  "stations_store = \<lparr> cells = (\<lambda>r. stations_attributes), fresh = 1 \<rparr>"

definition stations_schema :: schema where
  "stations_schema =
     \<lparr> schema_idKey = Some ''nodes_id'', schema_attributes = 0,
       rootNodeTypes = [''projects'', ''surveyors''], nodeDepth = [(''default'', 1)],
       schema_fsRoot = [] \<rparr>"

definition station :: model where
  "station =
     \<lparr> name = ''stations'', key = ''stations_id'', idKey = Some ''nodes_id'',
       label = ''stations'', attributes = 0, isRoot = False, depth = Some 1,
       fsRoot = ''Unknown'' \<rparr>"

text \<open>
  Services in which every call returns: \<open>nserve.get\<close> resolves to the given item and
  \<open>getComparisonsMetadata\<close> to the given comparisons.
\<close>

definition example_services :: "itemData \<Rightarrow> jsval \<Rightarrow> unit services" where
  "example_services item comparisons =
     \<lparr> nserve_get = (\<lambda>i t. Inr (Some item)),
       nserve_select = (\<lambda>i. Inr (if i = Null then Null else Obj [(''id'', i)])),
       nserve_getPath = (\<lambda>n. Inr (Arr [])),
       nserve_selectByOwner = (\<lambda>i. Inr (Arr [])),
       getAttachedByNode = (\<lambda>n. Inr (Obj [])),
       getComparisonsMetadata = (\<lambda>n. Inr comparisons),
       isRelatable = (\<lambda>i j. Inr (Bool True)),
       deleteComparisons = (\<lambda>n. Inr ()),
       new_Model = (\<lambda>m. Inr ()),
       item_owner_id = (\<lambda>it. Null),
       mserve_move = (\<lambda>it ownerData. Inr (Bool True)),
       mserve_remove = (\<lambda>it. Inr ()),
       client_query = (\<lambda>q. Inr ()),
       importer_receive = Inr () \<rparr>"

definition capture :: itemData where
  "capture =
     \<lparr> item_type = Some ''modern_captures'', item_status = Some ''unsorted'',
       item_node = Obj [(''id'', Num 42), (''type'', Str ''modern_captures'')],
       item_metadata = Obj [(''nodes_id'', Num 42)],
       hasDependents = False, dependents = [], attached = Undefined \<rparr>"

definition one_comparison :: jsval where
  "one_comparison = Arr [Obj [(''historic_captures'', Num 17)]]"

definition captures_controller :: controller where
  "captures_controller =
     \<lparr> nodeType = ''modern_captures'',
       model = station\<lparr>name := ''modern_captures'', key := ''modern_captures_id''\<rparr> \<rparr>"

definition capture_request :: request where
  "capture_request = \<lparr> params = [(''modern_captures_id'', Str ''42''), (''owner_id'', Str ''7'')] \<rparr>"

definition stations_controller :: controller where
  "stations_controller = \<lparr> nodeType = ''stations'', model = station \<rparr>"

definition station_request :: request where
  "station_request = \<lparr> params = [(''stations_id'', Str ''151''), (''owner_id'', Str ''7'')] \<rparr>"

definition station_item :: itemData where
  "station_item =
     \<lparr> item_type = Some ''stations'', item_status = None,
       item_node = Obj [(''id'', Num 151), (''type'', Str ''stations'')],
       item_metadata = Obj [(''name'', Str ''TEST'')],
       hasDependents = True, dependents = [], attached = Undefined \<rparr>"

text \<open>The connection-frame predicate: no checkout, release or statement inside a body.\<close>

definition quiet :: "event list \<Rightarrow> bool" where
  "quiet t = list_all (\<lambda>e. e \<noteq> PoolConnect \<and> e \<noteq> ClientRelease \<and> \<not> is_query e) t"

section \<open>Properties of the entity factory\<close>

lemmas entity_defs =
  Model_def setData_def inputData_def entries_def hasOwnProperty_def assign_value_def getProp_def
  sanitize_def sanitize_text_def put_attribute_def getData_def Object_keys_def read_value_def
  addAttribute_def hasAttribute_def clear_def alloc_def undefined_array_def getValue_def
  setValue_def attribute_object_def instance_invariant_def holds_attribute_def js_toString_def
  set_property_def array_index_def is_digit_def decimal_def Let_def

lemmas example_defs =
  example_env_def is_digit_def decimal_def stations_attributes_def stations_store_def
  stations_schema_def station_def example_services_def capture_def one_comparison_def
  captures_controller_def capture_request_def stations_controller_def station_request_def
  station_item_def

subsection \<open>Writes keep the keys of the attribute object\<close>

lemma getProp_PAttr_key: "getProp c k = PAttr a \<Longrightarrow> k \<in> set (map fst (props c))"
proof -
  assume "getProp c k = PAttr a"
  then have "map_of (props c) k = Some (Some a)"
    by (auto simp: getProp_def split: if_splits option.splits)
  then have "k \<in> dom (map_of (props c))" by blast
  then show ?thesis by (simp add: dom_map_of_conv_image_fst)
qed

lemma getProp_PAttr_not_length:
  "getProp c k = PAttr a \<Longrightarrow> \<not> (is_array c \<and> k = ''length'')"
  by (auto simp: getProp_def split: if_splits)

lemma set_insert_index: "set (insert_index n k v ps) = insert (k, v) (set ps)"
  by (induction ps) (auto split: option.splits if_splits)

lemma map_of_insert_index:
  "k \<notin> set (map fst ps) \<Longrightarrow>
     map_of (insert_index n k v ps) k' = (if k' = k then Some v else map_of ps k')"
  by (induction ps) (auto split: option.splits if_splits)

lemma map_of_set_property:
  "map_of (set_property k v ps) k' = (if k' = k then Some v else map_of ps k')"
proof (cases "k \<in> set (map fst ps)")
  case True
  then show ?thesis by (simp add: set_property_def update_conv')
next
  case False
  then have none: "map_of ps k = None" by (simp add: map_of_eq_None_iff)
  show ?thesis
  proof (cases "array_index k")
    case None
    with False none show ?thesis
      by (auto simp: set_property_def map_add_def split: option.splits)
  next
    case (Some n)
    with False show ?thesis
      using map_of_insert_index [of k ps n v k'] by (simp add: set_property_def)
  qed
qed

lemma set_property_known_keys:
  "k \<in> set (map fst ps) \<Longrightarrow> map fst (set_property k v ps) = map fst ps"
  by (simp add: set_property_def update_keys)

lemma update_values: "set (map snd (AList.update k v ps)) \<subseteq> insert v (set (map snd ps))"
  by (induction ps) auto

lemma set_property_values:
  "set (map snd (set_property k v ps)) \<subseteq> insert v (set (map snd ps))"
  using update_values [of k v ps]
  by (auto simp: set_property_def set_insert_index split: option.splits)

lemma set_property_key_present: "k \<in> set (map fst (set_property k v ps))"
proof -
  have "map_of (set_property k v ps) k = Some v" by (simp add: map_of_set_property)
  then have "k \<in> dom (map_of (set_property k v ps))" by blast
  then show ?thesis by (simp add: dom_map_of_conv_image_fst)
qed

lemma put_attribute_cells:
  "cells (put_attribute st r k a) r' =
     (if r' = r then (cells st r)\<lparr>props := set_property k (Some a) (props (cells st r))\<rparr>
      else cells st r')"
  by (simp add: put_attribute_def)

lemma put_attribute_fresh: "fresh (put_attribute st r k a) = fresh st"
  by (simp add: put_attribute_def)

lemma put_attribute_keys:
  "k \<in> set (map fst (props (cells st r))) \<Longrightarrow>
     Object_keys (cells (put_attribute st r k a) r') = Object_keys (cells st r')"
  by (simp add: put_attribute_cells Object_keys_def set_property_known_keys)

lemma put_attribute_getProp:
  "getProp (cells (put_attribute st r k a) r) k' =
     (if k' = k then (if is_array (cells st r) \<and> k = ''length'' then PNumber else PAttr a)
      else getProp (cells st r) k')"
  by (simp add: put_attribute_cells getProp_def map_of_set_property)

lemma put_attribute_object:
  "attribute_object (cells st r') \<Longrightarrow> attribute_object (cells (put_attribute st r k a) r')"
  using set_property_values [of k "Some a" "props (cells st r)"]
  by (auto simp: put_attribute_cells attribute_object_def)

lemma assign_value_frame:
  assumes "assign_value h st r k v = (st', res)"
  shows "Object_keys (cells st' r') = Object_keys (cells st r')
     \<and> (attribute_object (cells st r') \<longrightarrow> attribute_object (cells st' r'))
     \<and> fresh st' = fresh st"
  using assms
  by (auto simp: assign_value_def put_attribute_keys put_attribute_object put_attribute_fresh
      split: property.splits sum.splits dest: getProp_PAttr_key)

lemma assign_all_frame:
  assumes "assign_all h r kvs st = (st', res)"
  shows "Object_keys (cells st' r') = Object_keys (cells st r')
     \<and> (attribute_object (cells st r') \<longrightarrow> attribute_object (cells st' r'))
     \<and> fresh st' = fresh st"
  using assms
proof (induction kvs arbitrary: st)
  case Nil
  then show ?case by simp
next
  case (Cons p kvs)
  obtain k v where p: "p = (k, v)" by (cases p)
  obtain st1 r1 where av: "assign_value h st r k v = (st1, r1)"
    by (cases "assign_value h st r k v")
  note fr = assign_value_frame [OF av, of r']
  show ?case
  proof (cases r1)
    case (Inl e)
    with Cons.prems p av have "st' = st1" by simp
    with fr show ?thesis by simp
  next
    case (Inr u)
    with Cons.prems p av have "assign_all h r kvs st1 = (st', res)" by simp
    from Cons.IH [OF this] fr show ?thesis by simp
  qed
qed

lemma setData_frame:
  assumes "setData h this data st = (w, st', res)"
  shows "Object_keys (cells st' r') = Object_keys (cells st r')
     \<and> (attribute_object (cells st r') \<longrightarrow> attribute_object (cells st' r'))
     \<and> fresh st' = fresh st"
  using assms
  by (auto simp: setData_def Let_def split: if_splits sum.splits dest: assign_all_frame)

subsection \<open>Reading an attribute object\<close>

lemma attribute_object_getProp:
  assumes "attribute_object c" and "k \<in> set (map fst (props c))"
  shows "\<exists>a. getProp c k = PAttr a"
proof -
  from assms(2) obtain x where "map_of (props c) k = Some x"
    by (metis map_of_eq_None_iff not_Some_eq set_map)
  moreover from this assms(1) have "x \<noteq> None"
    by (force simp: attribute_object_def dest: map_of_SomeD)
  ultimately show ?thesis
    using assms(1) by (auto simp: getProp_def attribute_object_def)
qed

lemma collect_attribute_object:
  assumes "attribute_object c" and "set ks \<subseteq> set (map fst (props c))"
  shows "\<exists>kvs. collect c ks = Inr kvs \<and> map fst kvs = ks"
  using assms(2)
proof (induction ks)
  case Nil
  then show ?case by simp
next
  case (Cons k ks)
  then obtain a where "getProp c k = PAttr a"
    using attribute_object_getProp [OF assms(1), of k] by auto
  with Cons show ?case by (auto simp: read_value_def)
qed

lemma getData_attribute_object:
  assumes "attribute_object (cells st (attributes this))"
  shows "\<exists>kvs. getData st this [] = Inr kvs
           \<and> map fst kvs = Object_keys (cells st (attributes this))"
  using collect_attribute_object [OF assms, of "Object_keys (cells st (attributes this))"]
  by (simp add: getData_def Object_keys_def)

lemma collect_lookup:
  assumes "collect c ks = Inr kvs" and "k \<in> set ks" and "read_value (getProp c k) = Inr v"
  shows "map_of kvs k = Some v"
  using assms
proof (induction ks arbitrary: kvs)
  case Nil
  then show ?case by simp
next
  case (Cons k' ks)
  then show ?case
    by (cases "k' = k") (auto split: sum.splits)
qed

subsection \<open>What one assignment leaves at a key\<close>

lemma assign_value_other:
  assumes "assign_value h st r k' v = (st', res)" and "k' \<noteq> k"
  shows "getProp (cells st' r) k = getProp (cells st r) k"
  using assms
  by (auto simp: assign_value_def put_attribute_getProp split: property.splits sum.splits)

lemma assign_value_same:
  assumes "assign_value h st r k v = (st', Inr u)" and "getProp (cells st r) k = PAttr a"
  shows "\<exists>v'. sanitize h v (attr_type a) = Inr v'
            \<and> getProp (cells st' r) k = PAttr (a\<lparr>attr_value := v'\<rparr>)"
  using assms getProp_PAttr_not_length [OF assms(2)]
  by (auto simp: assign_value_def put_attribute_getProp split: sum.splits)

lemma assign_all_other:
  assumes "assign_all h r kvs st = (st', res)" and "k \<notin> set (map fst kvs)"
  shows "getProp (cells st' r) k = getProp (cells st r) k"
  using assms
proof (induction kvs arbitrary: st)
  case Nil
  then show ?case by simp
next
  case (Cons p kvs)
  obtain k' v where p: "p = (k', v)" by (cases p)
  obtain st1 r1 where av: "assign_value h st r k' v = (st1, r1)"
    by (cases "assign_value h st r k' v")
  from Cons.prems(2) p have ne: "k' \<noteq> k" and notin: "k \<notin> set (map fst kvs)" by auto
  note step = assign_value_other [OF av ne]
  show ?case
  proof (cases r1)
    case (Inl e)
    with Cons.prems(1) p av have "st' = st1" by simp
    with step show ?thesis by simp
  next
    case (Inr u)
    with Cons.prems(1) p av have "assign_all h r kvs st1 = (st', res)" by simp
    from Cons.IH [OF this notin] step show ?thesis by simp
  qed
qed

lemma assign_all_sets:
  assumes "assign_all h r kvs st = (st', Inr u)"
      and "distinct (map fst kvs)"
      and "(k, v) \<in> set kvs"
      and "getProp (cells st r) k = PAttr a"
  shows "\<exists>v'. sanitize h v (attr_type a) = Inr v'
            \<and> getProp (cells st' r) k = PAttr (a\<lparr>attr_value := v'\<rparr>)"
  using assms
proof (induction kvs arbitrary: st)
  case Nil
  then show ?case by simp
next
  case (Cons p kvs)
  obtain k' w where p: "p = (k', w)" by (cases p)
  obtain st1 r1 where av: "assign_value h st r k' w = (st1, r1)"
    by (cases "assign_value h st r k' w")
  from Cons.prems(1) p av obtain u1 where r1: "r1 = Inr u1"
    by (cases r1) auto
  with Cons.prems(1) p av have rest: "assign_all h r kvs st1 = (st', Inr u)" by simp
  from Cons.prems(2) p have dist: "distinct (map fst kvs)"
    and fresh_key: "k' \<notin> set (map fst kvs)"
    by auto
  show ?case
  proof (cases "(k, v) = p")
    case True
    with p have kv: "k' = k" "w = v" by auto
    from assign_value_same [OF av [unfolded r1 kv] Cons.prems(4)]
    obtain v' where v': "sanitize h v (attr_type a) = Inr v'"
      and at1: "getProp (cells st1 r) k = PAttr (a\<lparr>attr_value := v'\<rparr>)" by blast
    from assign_all_other [OF rest] fresh_key kv
    have "getProp (cells st' r) k = getProp (cells st1 r) k" by simp
    with v' at1 show ?thesis by auto
  next
    case False
    with Cons.prems(3) have mem: "(k, v) \<in> set kvs" by auto
    then have "k \<in> set (map fst kvs)" by force
    with fresh_key have "k' \<noteq> k" by auto
    from assign_value_other [OF av this] Cons.prems(4)
    have "getProp (cells st1 r) k = PAttr a" by simp
    from Cons.IH [OF rest dist mem this] show ?thesis .
  qed
qed

subsection \<open>clear\<close>

lemma null_all_attribute_object:
  assumes "attribute_object (cells st r)" and "set ks \<subseteq> set (map fst (props (cells st r)))"
  shows "\<exists>st'. null_all r ks st = (st', Inr ())
           \<and> (\<forall>r'. Object_keys (cells st' r') = Object_keys (cells st r'))
           \<and> fresh st' = fresh st"
  using assms
proof (induction ks arbitrary: st)
  case Nil
  then show ?case by simp
next
  case (Cons k ks)
  from Cons.prems obtain a where a: "getProp (cells st r) k = PAttr a"
    using attribute_object_getProp [of "cells st r" k] by auto
  let ?st1 = "put_attribute st r k (a\<lparr>attr_value := Null\<rparr>)"
  from Cons.prems have k: "k \<in> set (map fst (props (cells st r)))" by simp
  have keys1: "\<And>r'. Object_keys (cells ?st1 r') = Object_keys (cells st r')"
    using put_attribute_keys [OF k] .
  have obj1: "attribute_object (cells ?st1 r)"
    using put_attribute_object [OF Cons.prems(1)] .
  have "set ks \<subseteq> set (map fst (props (cells ?st1 r)))"
    using Cons.prems(2) keys1 [of r] by (simp add: Object_keys_def)
  from Cons.IH [OF obj1 this] keys1 a show ?case
    by (auto simp: put_attribute_fresh)
qed

lemma undefined_array_holds_nothing: "\<not> holds_attribute (undefined_array n) k"
proof -
  have "map_of (map (\<lambda>i. (index_key i, None :: attribute option)) xs) k \<noteq> Some (Some a)"
    for xs a
    by (induction xs) auto
  then show ?thesis
    by (auto simp: holds_attribute_def getProp_def undefined_array_def
        split: property.splits option.splits)
qed

lemma getData_undefined_array:
  assumes "cells st (attributes this) = undefined_array n" and "0 < n"
  shows "getData st this [] = Inl TypeError"
proof -
  from assms(2) have up: "[0..<n] = 0 # [1..<n]" by (simp add: upt_conv_Cons)
  have k0: "index_key 0 = [digit 0]" by simp
  have "getProp (undefined_array n) (index_key 0) = PUndefined"
    by (simp add: getProp_def undefined_array_def up k0)
  then show ?thesis
    by (simp add: getData_def assms(1) Object_keys_def undefined_array_def up read_value_def
        del: index_key.simps)
qed

subsection \<open>When the second pass of setData returns\<close>


subsection \<open>Claims about the entity factory\<close>



text \<open>
  C7, on the code. Under the types \<open>text\<close> and \<open>varying character\<close> the empty string is
  sanitized to the empty string, where the sanitizers of \<open>integer\<close>, \<open>float\<close>,
  \<open>double precision\<close> and \<open>USER-DEFINED\<close> and the default one give null. The station's
  \<open>narrative\<close> is of type \<open>text\<close>: after \<open>setData({narrative: ''})\<close>, \<open>getData()\<close> yields
  the empty string for it, not null.
\<close>

theorem text_empty_string_stays_empty:
  "sanitize example_env (Str []) ''text'' = Inr (Str [])
   \<and> sanitize example_env (Str []) ''varying character'' = Inr (Str [])
   \<and> sanitize example_env (Str []) ''integer'' = Inr Null
   \<and> sanitize example_env (Str []) ''float'' = Inr Null
   \<and> sanitize example_env (Str []) ''double precision'' = Inr Null
   \<and> sanitize example_env (Str []) ''USER-DEFINED'' = Inr Null
   \<and> sanitize example_env (Str []) ''default'' = Inr Null
   \<and> getData (fst (snd (setData example_env station (Obj [(''narrative'', Str [])])
        stations_store))) station []
       = Inr [(''name'', Null), (''narrative'', Str [])]"
  by (simp add: entity_defs example_defs)

text \<open>
  The same for every schema and environment: when \<open>setData(x)\<close> returns, for a flat record
  \<open>x\<close> that assigns the empty string to a key of type \<open>text\<close> or \<open>varying character\<close>,
  \<open>getData()\<close> yields the empty string for that key.
\<close>

lemma setData_text_empty_string:
  assumes "attribute_object (cells st (attributes this))"
      and "data = Obj es" and "map_of es ''rows'' = None" and "distinct (map fst es)"
      and "(k, Str []) \<in> set es"
      and "getProp (cells st (attributes this)) k = PAttr a"
      and "attr_type a = ''text'' \<or> attr_type a = ''varying character''"
      and "setData h this data st = (warned, st', Inr u)"
  shows "sanitize h (Str []) (attr_type a) = Inr (Str [])
       \<and> (\<exists>kvs. getData st' this [] = Inr kvs \<and> map_of kvs k = Some (Str []))"
proof -
  let ?r = "attributes this"
  let ?known = "filter (\<lambda>(k, v). hasOwnProperty (cells st ?r) k) es"
  have san: "sanitize h (Str []) (attr_type a) = Inr (Str [])"
    using assms(7) by (auto simp: sanitize_def sanitize_text_def)
  from assms(8) assms(2,3) have run: "assign_all h ?r ?known st = (st', Inr u)"
    by (simp add: setData_def inputData_def entries_def Let_def split: if_splits)
  have "k \<in> set (map fst (props (cells st ?r)))"
    using getProp_PAttr_key [OF assms(6)] .
  then have mem: "(k, Str []) \<in> set ?known"
    using assms(5) by (simp add: hasOwnProperty_def)
  have dist: "distinct (map fst ?known)"
    using assms(4) by (simp add: distinct_map_filter)
  from assign_all_sets [OF run dist mem assms(6)] san
  have at: "getProp (cells st' ?r) k = PAttr (a\<lparr>attr_value := Str []\<rparr>)" by auto
  from setData_frame [OF assms(8), of ?r] assms(1)
  have obj: "attribute_object (cells st' ?r)" by simp
  from getData_attribute_object [OF obj]
  obtain kvs where kvs: "getData st' this [] = Inr kvs"
    and keys: "map fst kvs = Object_keys (cells st' ?r)" by blast
  from kvs have col: "collect (cells st' ?r) (Object_keys (cells st' ?r)) = Inr kvs"
    by (simp add: getData_def)
  have "k \<in> set (Object_keys (cells st' ?r))"
    using getProp_PAttr_key [OF at] by (simp add: Object_keys_def)
  from collect_lookup [OF col this] at have "map_of kvs k = Some (Str [])"
    by (simp add: read_value_def)
  with san kvs show ?thesis by simp
qed

text \<open>
  C8, on the code. Two instances built by one constructor hold the same attribute object,
  which is the schema's: constructing with no data leaves the store as it is and yields
  \<open>station\<close> both times. After \<open>addAttribute('fs_path', 'text', '/stations/test')\<close> on the
  first, the schema has the attribute, \<open>getData()\<close> of the second returns it, and so does
  an instance constructed afterwards.
\<close>

theorem addAttribute_reaches_schema_and_instances:
  "Model example_env stations_schema ''stations'' Undefined stations_store
     = ([], stations_store, Inr station)
   \<and> \<not> hasAttribute stations_store stations_schema ''fs_path''
   \<and> snd (addAttribute stations_store station ''fs_path'' ''text'' (Str ''/stations/test''))
       = Inr ()
   \<and> hasAttribute
       (fst (addAttribute stations_store station ''fs_path'' ''text'' (Str ''/stations/test'')))
       stations_schema ''fs_path''
   \<and> getData
       (fst (addAttribute stations_store station ''fs_path'' ''text'' (Str ''/stations/test'')))
       station []
       = Inr [(''name'', Null), (''narrative'', Null), (''fs_path'', Str ''/stations/test'')]
   \<and> snd (snd (Model example_env stations_schema ''stations'' Undefined
        (fst (addAttribute stations_store station ''fs_path'' ''text'' (Str ''/stations/test'')))))
       = Inr station"
  by (simp add: entity_defs example_defs)

text \<open>
  The same for every constructor: an attribute added through one instance is an own
  property of the schema's attribute object and of every instance that holds it.
\<close>

lemma addAttribute_is_shared:
  assumes "attributes a = schema_attributes sch" and "attributes b = schema_attributes sch"
      and "\<not> is_array (cells st (schema_attributes sch))" and "nm \<noteq> ''__proto__''"
  shows "\<exists>st'. addAttribute st a nm ty v = (st', Inr ())
           \<and> hasAttribute st' sch nm
           \<and> nm \<in> set (Object_keys (cells st' (attributes b)))"
  using assms set_property_key_present [of nm _ "props (cells st (schema_attributes sch))"]
  by (simp add: addAttribute_def hasAttribute_def hasOwnProperty_def Object_keys_def
      put_attribute_cells)



text \<open>
  The instance that \<open>clear()\<close> leaves behind no longer holds the schema's attribute
  object, and there the accessors are not safe for names outside the schema: the array
  owns \<open>0\<close> and \<open>length\<close>, so \<open>getValue('0')\<close> and \<open>setValue('0', v)\<close> throw and
  \<open>getValue('length')\<close> gives undefined.
\<close>

lemma index_key_0: "index_key 0 = ''0''"
  by code_simp

lemma index_key_1: "index_key 1 = ''1''"
  by code_simp

lemma accessors_after_clear:
  "\<not> hasAttribute (fst (clear stations_store station)) stations_schema ''0''
   \<and> \<not> hasAttribute (fst (clear stations_store station)) stations_schema ''length''
   \<and> getValue (fst (clear stations_store station)) (fst (snd (clear stations_store station))) ''0''
       = Inl TypeError
   \<and> snd (setValue example_env (fst (clear stations_store station))
        (fst (snd (clear stations_store station))) ''0'' (Str ''x''))
       = Inl TypeError
   \<and> getValue (fst (clear stations_store station)) (fst (snd (clear stations_store station)))
        ''length''
       = Inr Undefined"
proof -
  have two: "[0..<2] = [0, 1]" by (simp add: upt_conv_Cons)
  show ?thesis
    by (simp add: entity_defs example_defs two index_key_0 index_key_1 del: index_key.simps)
qed

text \<open>
  C10. Take an instance that uses its schema's attribute object, with at least one
  attribute. \<open>clear()\<close> returns, and afterwards \<open>this.attributes\<close> is an array of as many
  undefined entries as the schema has keys; the instance no longer holds an attribute
  record for every schema key, and \<open>getData()\<close> throws a TypeError.
\<close>

theorem clear_breaks_instance:
  assumes "attributes this = schema_attributes sch"
      and "attribute_object (cells st (schema_attributes sch))"
      and "props (cells st (schema_attributes sch)) \<noteq> []"
      and "schema_attributes sch < fresh st"
  shows "\<exists>st' this'. clear st this = (st', this', Inr ())
           \<and> cells st' (attributes this')
               = undefined_array (length (Object_keys (cells st (schema_attributes sch))))
           \<and> \<not> instance_invariant st' sch this'
           \<and> getData st' this' [] = Inl TypeError"
proof -
  let ?r = "schema_attributes sch"
  let ?ks = "Object_keys (cells st ?r)"
  from null_all_attribute_object [OF assms(2), of ?ks]
  obtain st1 where run: "null_all ?r ?ks st = (st1, Inr ())"
    and keys: "\<And>r'. Object_keys (cells st1 r') = Object_keys (cells st r')"
    and fr: "fresh st1 = fresh st"
    by (auto simp: Object_keys_def)
  let ?n = "length ?ks"
  let ?st2 = "st1\<lparr>cells := (cells st1)(fresh st1 := undefined_array ?n),
                   fresh := Suc (fresh st1)\<rparr>"
  let ?this' = "this\<lparr>attributes := fresh st1\<rparr>"
  have cl: "clear st this = (?st2, ?this', Inr ())"
    by (simp add: clear_def assms(1) run alloc_def)
  have arr: "cells ?st2 (attributes ?this') = undefined_array ?n" by simp
  from assms(3) have pos: "0 < ?n" by (simp add: Object_keys_def)
  from assms(4) fr have "?r \<noteq> fresh st1" by simp
  then have "Object_keys (cells ?st2 ?r) = ?ks" by (simp add: keys)
  moreover from pos obtain k ks where "?ks = k # ks" by (cases ?ks) auto
  ultimately have inv: "\<not> instance_invariant ?st2 sch ?this'"
    by (simp add: instance_invariant_def undefined_array_holds_nothing)
  from getData_undefined_array [OF arr pos] cl arr inv show ?thesis by blast
qed

text \<open>The station before and after \<open>clear()\<close>.\<close>

theorem clear_breaks_instance_witness:
  "attributes station = schema_attributes stations_schema
   \<and> attribute_object (cells stations_store (schema_attributes stations_schema))
   \<and> props (cells stations_store (schema_attributes stations_schema)) \<noteq> []
   \<and> schema_attributes stations_schema < fresh stations_store
   \<and> instance_invariant stations_store stations_schema station
   \<and> getData stations_store station [] = Inr [(''name'', Null), (''narrative'', Null)]
   \<and> (\<exists>st' this'. clear stations_store station = (st', this', Inr ())
         \<and> cells st' (attributes this') = undefined_array 2
         \<and> \<not> instance_invariant st' stations_schema this'
         \<and> getData st' this' [] = Inl TypeError)"
proof -
  have a: "attributes station = schema_attributes stations_schema"
    by (simp add: station_def stations_schema_def)
  have b: "attribute_object (cells stations_store (schema_attributes stations_schema))"
    by (simp add: attribute_object_def stations_store_def stations_attributes_def)
  have c: "props (cells stations_store (schema_attributes stations_schema)) \<noteq> []"
    by (simp add: stations_store_def stations_attributes_def)
  have d: "schema_attributes stations_schema < fresh stations_store"
    by (simp add: stations_store_def stations_schema_def)
  have e: "instance_invariant stations_store stations_schema station"
    by (simp add: entity_defs example_defs)
  have f: "getData stations_store station [] = Inr [(''name'', Null), (''narrative'', Null)]"
    by (simp add: entity_defs example_defs)
  have n: "length (Object_keys (cells stations_store (schema_attributes stations_schema))) = 2"
    by (simp add: Object_keys_def stations_store_def stations_attributes_def)
  from clear_breaks_instance [OF a b c d] a b c d e f n show ?thesis by simp
qed

section \<open>Properties of the controller\<close>

lemmas task_defs = handler_def andThen_def call_def ret_def next_error_def respond_def

subsection \<open>The connection frame\<close>

lemma quiet_call:
  "ev \<noteq> PoolConnect \<Longrightarrow> ev \<noteq> ClientRelease \<Longrightarrow> \<not> is_query ev \<Longrightarrow> quiet (fst (call ev r))"
  by (simp add: quiet_def call_def)

lemma quiet_ret: "quiet (fst (ret x))"
  by (simp add: quiet_def ret_def)

lemma quiet_next_error: "quiet (fst (next_error m))"
  by (simp add: quiet_def next_error_def)

lemma quiet_respond: "quiet (fst (respond v d))"
  by (simp add: quiet_def respond_def)

lemma quiet_andThen:
  assumes "quiet (fst m)" and "\<And>x. quiet (fst (f x))"
  shows "quiet (fst (andThen m f))"
proof (cases m)
  case (Pair t r)
  show ?thesis
  proof (cases r)
    case (Inl e)
    with Pair assms(1) show ?thesis by (simp add: andThen_def)
  next
    case (Inr x)
    obtain t' r' where fx: "f x = (t', r')" by (cases "f x")
    from assms(2) [of x] fx have "quiet t'" by simp
    with Pair Inr assms(1) fx show ?thesis by (simp add: andThen_def quiet_def)
  qed
qed

lemma handler_frame:
  assumes "quiet (fst body)"
  shows "\<exists>t. handler body = PoolConnect # t @ [ClientRelease] \<and> quiet t"
proof (cases body)
  case (Pair t r)
  with assms show ?thesis
    by (cases r) (auto simp: handler_def quiet_def)
qed

lemmas quiet_intros = quiet_andThen quiet_call quiet_ret quiet_next_error quiet_respond

subsection \<open>Claims about move, remove, show and edit\<close>

text \<open>
  C1, as the claim states it, fails for delete. A modern capture with one comparison
  and no dependents is deleted: its comparisons are removed, then the node, and the
  request is answered; no \<open>restrictedByComparisons\<close> is raised.
\<close>

theorem remove_with_comparisons_counterexample:
  "has_comparisons one_comparison
   \<and> remove example_env (example_services capture one_comparison) captures_controller
       capture_request
       = [PoolConnect,
          NserveGet (Num 42) ''modern_captures'',
          GetComparisonsMetadata (item_node capture),
          DeleteComparisons (item_node capture),
          NewModel (item_metadata capture),
          NserveSelect Null,
          NserveGetPath Null,
          MserveRemove,
          Respond ''remove'' capture,
          ClientRelease]
   \<and> Next (Error ''restrictedByComparisons'')
       \<notin> set (remove example_env (example_services capture one_comparison) captures_controller
                capture_request)"
  by (simp add: remove_def task_defs getId_def type_of_def has_comparisons_def example_defs)

text \<open>
  C1, amended. Take a request whose node resolves with the expected type and whose
  comparison set is a non-empty array. A move whose owner resolves is rejected with
  \<open>restrictedByComparisons\<close> whatever \<open>isRelatable\<close> returned, and none of its calls
  changes stored data. A delete of the node, when it has no dependents, is not rejected:
  the comparisons are deleted first, then the node.
\<close>

theorem move_restricted_remove_deletes:
  assumes "nserve_get svc (getId h ctl req) (nodeType ctl) = Inr (Some item)"
      and "item_type item = Some (nodeType ctl)"
      and "getComparisonsMetadata svc (item_node item) = Inr (Arr cs)" and "cs \<noteq> []"
  shows "(\<forall>ownerData rel.
            nserve_select svc (param_owner_id req) = Inr ownerData \<and> truthy ownerData
            \<and> isRelatable svc (getId h ctl req) (param_owner_id req) = Inr rel \<longrightarrow>
            move h svc ctl req =
              [PoolConnect,
               NserveGet (getId h ctl req) (nodeType ctl),
               NserveSelect (param_owner_id req),
               GetComparisonsMetadata (item_node item),
               IsRelatable (getId h ctl req) (param_owner_id req),
               Next (Error ''restrictedByComparisons''),
               ClientRelease]
            \<and> \<not> list_ex mutating (move h svc ctl req))
       \<and> (\<forall>it owner path.
            \<not> hasDependents item
            \<and> deleteComparisons svc (item_node item) = Inr ()
            \<and> new_Model svc (item_metadata item) = Inr it
            \<and> nserve_select svc (item_owner_id svc it) = Inr owner
            \<and> nserve_getPath svc owner = Inr path
            \<and> mserve_remove svc it = Inr () \<longrightarrow>
            remove h svc ctl req =
              [PoolConnect,
               NserveGet (getId h ctl req) (nodeType ctl),
               GetComparisonsMetadata (item_node item),
               DeleteComparisons (item_node item),
               NewModel (item_metadata item),
               NserveSelect (item_owner_id svc it),
               NserveGetPath owner,
               MserveRemove,
               Respond ''remove'' item,
               ClientRelease])"
  using assms
  by (simp add: move_def remove_def task_defs type_of_def has_comparisons_def)

text \<open>The modern capture with one comparison, moved to owner 7 and deleted.\<close>

theorem move_restricted_remove_deletes_witness:
  "nserve_get (example_services capture one_comparison)
       (getId example_env captures_controller capture_request) (nodeType captures_controller)
     = Inr (Some capture)
   \<and> item_type capture = Some (nodeType captures_controller)
   \<and> getComparisonsMetadata (example_services capture one_comparison) (item_node capture)
       = Inr one_comparison
   \<and> move example_env (example_services capture one_comparison) captures_controller
       capture_request
       = [PoolConnect,
          NserveGet (Num 42) ''modern_captures'',
          NserveSelect (Str ''7''),
          GetComparisonsMetadata (item_node capture),
          IsRelatable (Num 42) (Str ''7''),
          Next (Error ''restrictedByComparisons''),
          ClientRelease]
   \<and> \<not> list_ex mutating
         (move example_env (example_services capture one_comparison) captures_controller
            capture_request)
   \<and> remove example_env (example_services capture one_comparison) captures_controller
       capture_request
       = [PoolConnect,
          NserveGet (Num 42) ''modern_captures'',
          GetComparisonsMetadata (item_node capture),
          DeleteComparisons (item_node capture),
          NewModel (item_metadata capture),
          NserveSelect Null,
          NserveGetPath Null,
          MserveRemove,
          Respond ''remove'' capture,
          ClientRelease]"
proof -
  let ?svc = "example_services capture one_comparison"
  have 1: "nserve_get ?svc (getId example_env captures_controller capture_request)
             (nodeType captures_controller) = Inr (Some capture)"
    by (simp add: example_services_def)
  have 2: "item_type capture = Some (nodeType captures_controller)"
    by (simp add: capture_def captures_controller_def)
  have 3: "getComparisonsMetadata ?svc (item_node capture)
             = Inr (Arr [Obj [(''historic_captures'', Num 17)]])"
    by (simp add: example_services_def one_comparison_def)
  have 4: "[Obj [(''historic_captures'', Num 17)]] \<noteq> []" by simp
  have i: "getId example_env captures_controller capture_request = Num 42"
    by (simp add: getId_def example_defs)
  have o: "param_owner_id capture_request = Str ''7''"
    by (simp add: param_owner_id_def capture_request_def)
  have m: "nserve_select ?svc (Str ''7'') = Inr (Obj [(''id'', Str ''7'')])
           \<and> truthy (Obj [(''id'', Str ''7'')])
           \<and> isRelatable ?svc (Num 42) (Str ''7'') = Inr (Bool True)"
    by (simp add: example_services_def)
  have d: "\<not> hasDependents capture
           \<and> deleteComparisons ?svc (item_node capture) = Inr ()
           \<and> new_Model ?svc (item_metadata capture) = Inr ()
           \<and> item_owner_id ?svc () = Null
           \<and> nserve_select ?svc Null = Inr Null
           \<and> nserve_getPath ?svc Null = Inr (Arr [])
           \<and> mserve_remove ?svc () = Inr ()"
    by (simp add: example_services_def capture_def)
  from move_restricted_remove_deletes [OF 1 2 3 4] 1 2 3 i o m d show ?thesis
    by (simp add: one_comparison_def captures_controller_def)
qed

text \<open>
  C2, on the code. A capture with one comparison is deleted and \<open>mserve.remove\<close> throws
  after the comparisons were deleted: the controller has issued no \<open>BEGIN\<close> before its
  reads and issues no \<open>ROLLBACK\<close> before it passes the error to \<open>next\<close>. \<open>create\<close>, in
  the same controller, opens a transaction first and rolls it back in \<open>catch\<close>: when
  \<open>importer.receive\<close> throws, \<open>ROLLBACK\<close> is issued before the error is passed on.
\<close>

theorem remove_failure_without_rollback:
  "remove example_env
     ((example_services capture one_comparison)
        \<lparr>mserve_remove := (\<lambda>it. Inl (Error ''connection terminated''))\<rparr>)
     captures_controller capture_request
     = [PoolConnect,
        NserveGet (Num 42) ''modern_captures'',
        GetComparisonsMetadata (item_node capture),
        DeleteComparisons (item_node capture),
        NewModel (item_metadata capture),
        NserveSelect Null,
        NserveGetPath Null,
        MserveRemove,
        ConsoleError (Error ''connection terminated''),
        Next (Error ''connection terminated''),
        ClientRelease]
   \<and> create example_env
       ((example_services station_item (Arr []))
          \<lparr>importer_receive := Inl (Error ''connection terminated'')\<rparr>)
       stations_controller station_request
       = [PoolConnect,
          ClientQuery ''BEGIN'',
          NserveSelect (Str ''7''),
          ImporterReceive,
          ClientQuery ''ROLLBACK'',
          ConsoleError (Error ''connection terminated''),
          Next (Error ''connection terminated''),
          ClientRelease]"
  by (simp add: remove_def create_def task_defs getId_def param_owner_id_def type_of_def
      has_comparisons_def example_defs)

text \<open>
  The same on every path of move and delete, for all services and requests: the client
  is checked out first and released last, and in between the controller checks out no
  other client and issues no statement of its own on it.
\<close>

lemma move_remove_connection_frame:
  "(\<exists>t. move h svc ctl req = PoolConnect # t @ [ClientRelease] \<and> quiet t)
   \<and> (\<exists>t. remove h svc ctl req = PoolConnect # t @ [ClientRelease] \<and> quiet t)"
proof
  show "\<exists>t. move h svc ctl req = PoolConnect # t @ [ClientRelease] \<and> quiet t"
    unfolding move_def
    by (rule handler_frame) (auto intro!: quiet_intros split: option.splits)
  show "\<exists>t. remove h svc ctl req = PoolConnect # t @ [ClientRelease] \<and> quiet t"
    unfolding remove_def
    by (rule handler_frame) (auto intro!: quiet_intros split: option.splits)
qed

text \<open>
  An unsorted capture without comparisons is moved to owner 7: the client is checked out,
  the reads and \<open>mserve.move\<close> run, the request is answered and the client released.
\<close>

lemma move_unsorted_capture:
  "move example_env (example_services capture (Arr [])) captures_controller capture_request
     = [PoolConnect,
        NserveGet (Num 42) ''modern_captures'',
        NserveSelect (Str ''7''),
        GetComparisonsMetadata (item_node capture),
        IsRelatable (Num 42) (Str ''7''),
        NewModel (item_metadata capture),
        MserveMove (Obj [(''id'', Str ''7'')]),
        Respond ''show'' capture,
        ClientRelease]"
  by (simp add: move_def task_defs getId_def param_owner_id_def type_of_def status_of_def
      metadata_of_def has_comparisons_def example_defs)

text \<open>
  \<open>create\<close> with an owner and every call returning wraps its work in \<open>BEGIN\<close> and
  \<open>COMMIT\<close>.
\<close>

lemma create_issues_transaction:
  "create example_env (example_services station_item (Arr [])) stations_controller
     station_request
     = [PoolConnect, ClientQuery ''BEGIN'', NserveSelect (Str ''7''), ImporterReceive,
        ClientQuery ''COMMIT'', ClientRelease]"
  by (simp add: create_def task_defs param_owner_id_def example_defs)

text \<open>
  C3. A move whose node and owner resolve, whose comparison check passes and whose
  status is none of \<open>unsorted\<close>, \<open>sorted\<close>, \<open>missing\<close> is rejected with \<open>invalidMove\<close>,
  whatever \<open>isRelatable\<close> returned; \<open>mserve.move\<close> is not called.
\<close>

theorem move_invalid_status:
  assumes "nserve_get svc (getId h ctl req) (nodeType ctl) = Inr (Some item)"
      and "item_type item = Some (nodeType ctl)"
      and "nserve_select svc (param_owner_id req) = Inr ownerData" and "truthy ownerData"
      and "getComparisonsMetadata svc (item_node item) = Inr comparisons"
      and "\<not> has_comparisons comparisons"
      and "isRelatable svc (getId h ctl req) (param_owner_id req) = Inr rel"
      and "status_of item \<notin> {''unsorted'', ''sorted'', ''missing''}"
  shows "move h svc ctl req =
           [PoolConnect,
            NserveGet (getId h ctl req) (nodeType ctl),
            NserveSelect (param_owner_id req),
            GetComparisonsMetadata (item_node item),
            IsRelatable (getId h ctl req) (param_owner_id req),
            Next (Error ''invalidMove''),
            ClientRelease]
         \<and> \<not> list_ex mutating (move h svc ctl req)"
  using assms
  by (simp add: move_def task_defs type_of_def)

text \<open>A masterable capture without comparisons, moved to a relatable owner.\<close>

theorem move_invalid_status_witness:
  "status_of (capture\<lparr>item_status := Some ''masterable''\<rparr>)
     \<notin> {''unsorted'', ''sorted'', ''missing''}
   \<and> \<not> has_comparisons (Arr [])
   \<and> isRelatable (example_services (capture\<lparr>item_status := Some ''masterable''\<rparr>) (Arr []))
       (Num 42) (Str ''7'') = Inr (Bool True)
   \<and> move example_env (example_services (capture\<lparr>item_status := Some ''masterable''\<rparr>) (Arr []))
       captures_controller capture_request
       = [PoolConnect,
          NserveGet (Num 42) ''modern_captures'',
          NserveSelect (Str ''7''),
          GetComparisonsMetadata (item_node capture),
          IsRelatable (Num 42) (Str ''7''),
          Next (Error ''invalidMove''),
          ClientRelease]"
proof -
  let ?item = "capture\<lparr>item_status := Some ''masterable''\<rparr>"
  let ?svc = "example_services ?item (Arr [])"
  have i: "getId example_env captures_controller capture_request = Num 42"
    by (simp add: getId_def example_defs)
  have o: "param_owner_id capture_request = Str ''7''"
    by (simp add: param_owner_id_def capture_request_def)
  have 1: "nserve_get ?svc (getId example_env captures_controller capture_request)
             (nodeType captures_controller) = Inr (Some ?item)"
    by (simp add: example_services_def)
  have 2: "item_type ?item = Some (nodeType captures_controller)"
    by (simp add: capture_def captures_controller_def)
  have 3: "nserve_select ?svc (param_owner_id capture_request) = Inr (Obj [(''id'', Str ''7'')])"
    by (simp add: example_services_def o)
  have 4: "truthy (Obj [(''id'', Str ''7'')])" by simp
  have 5: "getComparisonsMetadata ?svc (item_node ?item) = Inr (Arr [])"
    by (simp add: example_services_def)
  have 6: "\<not> has_comparisons (Arr [])" by (simp add: has_comparisons_def)
  have 7: "isRelatable ?svc (getId example_env captures_controller capture_request)
             (param_owner_id capture_request) = Inr (Bool True)"
    by (simp add: example_services_def)
  have 8: "status_of ?item \<notin> {''unsorted'', ''sorted'', ''missing''}"
    by (simp add: status_of_def)
  from move_invalid_status [OF 1 2 3 4 5 6 7 8] 6 7 8 i o show ?thesis
    by (simp add: captures_controller_def)
qed

text \<open>
  C4. A delete whose node resolves with the expected type and has dependents is rejected
  with the error \<open>23503\<close> right after the node is read: the comparisons are not even
  looked up, and no call changes stored data.
\<close>

theorem remove_with_dependents:
  assumes "nserve_get svc (getId h ctl req) (nodeType ctl) = Inr (Some item)"
      and "item_type item = Some (nodeType ctl)"
      and "hasDependents item"
  shows "remove h svc ctl req =
           [PoolConnect,
            NserveGet (getId h ctl req) (nodeType ctl),
            Next (Error ''23503''),
            ClientRelease]
         \<and> \<not> list_ex mutating (remove h svc ctl req)"
  using assms
  by (simp add: remove_def task_defs type_of_def)

text \<open>A station with dependents and no comparisons.\<close>

theorem remove_with_dependents_witness:
  "hasDependents station_item
   \<and> getComparisonsMetadata (example_services station_item (Arr [])) (item_node station_item)
       = Inr (Arr [])
   \<and> remove example_env (example_services station_item (Arr [])) stations_controller
       station_request
       = [PoolConnect, NserveGet (Num 151) ''stations'', Next (Error ''23503''), ClientRelease]"
proof -
  let ?svc = "example_services station_item (Arr [])"
  have 1: "nserve_get ?svc (getId example_env stations_controller station_request)
             (nodeType stations_controller) = Inr (Some station_item)"
    by (simp add: example_services_def)
  have 2: "item_type station_item = Some (nodeType stations_controller)"
    by (simp add: station_item_def stations_controller_def)
  have 3: "hasDependents station_item" by (simp add: station_item_def)
  have c: "getComparisonsMetadata ?svc (item_node station_item) = Inr (Arr [])"
    by (simp add: example_services_def)
  have i: "getId example_env stations_controller station_request = Num 151"
    by (simp add: getId_def example_defs)
  from remove_with_dependents [OF 1 2 3] 3 c i show ?thesis
    by (simp add: stations_controller_def)
qed

text \<open>
  C5. When \<open>nserve.get\<close> resolves the id to a record whose stored type differs from the
  controller's node type, \<open>show\<close>, \<open>edit\<close> and \<open>remove\<close> pass \<open>notFound\<close> to \<open>next\<close> and
  make no further call. \<open>move\<close> has by then looked up the owner, nothing else: it passes
  \<open>notFound\<close> when that lookup returned, and the lookup's own error when it threw. None
  of the four responds with the record or hands it to another service.
\<close>

theorem type_mismatch_notFound:
  assumes "nserve_get svc (getId h ctl req) (nodeType ctl) = Inr (Some item)"
      and "item_type item = Some t" and "t \<noteq> nodeType ctl"
  shows "show' h svc ctl req =
           [PoolConnect, NserveGet (getId h ctl req) (nodeType ctl),
            Next (Error ''notFound''), ClientRelease]
       \<and> edit h svc ctl req =
           [PoolConnect, NserveGet (getId h ctl req) (nodeType ctl),
            Next (Error ''notFound''), ClientRelease]
       \<and> remove h svc ctl req =
           [PoolConnect, NserveGet (getId h ctl req) (nodeType ctl),
            Next (Error ''notFound''), ClientRelease]
       \<and> (\<forall>ownerData. nserve_select svc (param_owner_id req) = Inr ownerData \<longrightarrow>
            move h svc ctl req =
              [PoolConnect, NserveGet (getId h ctl req) (nodeType ctl),
               NserveSelect (param_owner_id req),
               Next (Error ''notFound''), ClientRelease])
       \<and> (\<forall>e. nserve_select svc (param_owner_id req) = Inl e \<longrightarrow>
            move h svc ctl req =
              [PoolConnect, NserveGet (getId h ctl req) (nodeType ctl),
               NserveSelect (param_owner_id req),
               ConsoleError e, Next e, ClientRelease])"
  using assms
  by (auto simp: show'_def edit_def remove_def move_def task_defs type_of_def)

text \<open>The stations controller is asked for id 151, which is stored as a survey.\<close>

theorem type_mismatch_notFound_witness:
  "item_type (station_item\<lparr>item_type := Some ''surveys''\<rparr>) = Some ''surveys''
   \<and> ''surveys'' \<noteq> nodeType stations_controller
   \<and> show' example_env (example_services (station_item\<lparr>item_type := Some ''surveys''\<rparr>) (Arr []))
       stations_controller station_request
       = [PoolConnect, NserveGet (Num 151) ''stations'', Next (Error ''notFound''), ClientRelease]
   \<and> edit example_env (example_services (station_item\<lparr>item_type := Some ''surveys''\<rparr>) (Arr []))
       stations_controller station_request
       = [PoolConnect, NserveGet (Num 151) ''stations'', Next (Error ''notFound''), ClientRelease]
   \<and> remove example_env
       (example_services (station_item\<lparr>item_type := Some ''surveys''\<rparr>) (Arr []))
       stations_controller station_request
       = [PoolConnect, NserveGet (Num 151) ''stations'', Next (Error ''notFound''), ClientRelease]
   \<and> move example_env (example_services (station_item\<lparr>item_type := Some ''surveys''\<rparr>) (Arr []))
       stations_controller station_request
       = [PoolConnect, NserveGet (Num 151) ''stations'', NserveSelect (Str ''7''),
          Next (Error ''notFound''), ClientRelease]"
proof -
  let ?item = "station_item\<lparr>item_type := Some ''surveys''\<rparr>"
  let ?svc = "example_services ?item (Arr [])"
  have 1: "nserve_get ?svc (getId example_env stations_controller station_request)
             (nodeType stations_controller) = Inr (Some ?item)"
    by (simp add: example_services_def)
  have 2: "item_type ?item = Some ''surveys''" by simp
  have 3: "''surveys'' \<noteq> nodeType stations_controller"
    by (simp add: stations_controller_def)
  have i: "getId example_env stations_controller station_request = Num 151"
    by (simp add: getId_def example_defs)
  have o: "param_owner_id station_request = Str ''7''"
    by (simp add: param_owner_id_def station_request_def)
  have s: "nserve_select ?svc (Str ''7'') = Inr (Obj [(''id'', Str ''7'')])"
    by (simp add: example_services_def)
  from type_mismatch_notFound [OF 1 2 3] 2 3 i o s show ?thesis
    by (simp add: stations_controller_def)
qed

end
